theory Spec2Isabelle
  imports Complex_Main "HOL-Library.Sublist" "HOL-Library.AList"
begin

section \<open>Python values used by app.py\<close>

text \<open>
  A Python \<open>str\<close> is a \<open>string\<close>, one \<open>char\<close> per code point; the model covers the
  code points below 256. An exception derived from \<open>Exception\<close> is a value of \<open>exn\<close>,
  and \<open>str_exn\<close> is Python's \<open>str(e)\<close>. The exceptions that are not derived from
  \<open>Exception\<close>, which \<open>except Exception\<close> does not intercept, are the values of
  \<open>base_exn\<close>, and \<open>thrown\<close> is anything that a call raises. A call that can raise
  returns a sum, with \<open>Inl\<close> for the exception. A call that never returns is outside
  the model.
\<close>

datatype exn =
    ValueError string
  | RuntimeError string
  | OtherError string

fun str_exn :: "exn \<Rightarrow> string" where
  "str_exn (ValueError m) = m"
| "str_exn (RuntimeError m) = m"
| "str_exn (OtherError m) = m"

datatype base_exn = SystemExit | KeyboardInterrupt | GeneratorExit

datatype thrown = Exc exn | Base base_exn

subsection \<open>\<open>str.strip()\<close>\<close>

text \<open>The characters below code point 256 for which \<open>str.isspace()\<close> holds.\<close>

definition isspace :: "char \<Rightarrow> bool" where
  "isspace c \<longleftrightarrow> c \<in> {CHR 0x09, CHR 0x0A, CHR 0x0B, CHR 0x0C, CHR 0x0D,
                     CHR 0x1C, CHR 0x1D, CHR 0x1E, CHR 0x1F, CHR 0x20, CHR 0x85, CHR 0xA0}"

definition strip :: "string \<Rightarrow> string" where
  "strip s = rev (dropWhile isspace (rev (dropWhile isspace s)))"

subsection \<open>\<open>repr\<close> of strings and of the list \<open>errs\<close>\<close>

definition hexdigit :: "nat \<Rightarrow> char" where
  "hexdigit n = ''0123456789abcdef'' ! (n mod 16)"

definition isprintable :: "char \<Rightarrow> bool" where
  "isprintable c \<longleftrightarrow>
     (let n = (of_char c :: nat) in (32 \<le> n \<and> n < 127) \<or> (161 \<le> n \<and> n \<noteq> 173))"

text \<open>One character of \<open>repr(s)\<close>, inside the quote character \<open>q\<close>.\<close>

definition repr_char :: "char \<Rightarrow> char \<Rightarrow> string" where
  "repr_char q c =
     (if c = q \<or> c = CHR 0x5C then [CHR 0x5C, c]
      else if c = CHR 0x09 then [CHR 0x5C, CHR ''t'']
      else if c = CHR 0x0A then [CHR 0x5C, CHR ''n'']
      else if c = CHR 0x0D then [CHR 0x5C, CHR ''r'']
      else if \<not> isprintable c
        then [CHR 0x5C, CHR ''x'', hexdigit (of_char c div 16), hexdigit (of_char c)]
      else [c])"

text \<open>
  \<open>repr\<close> of a \<open>str\<close>: double quotes when the string has a single quote and no double
  quote, single quotes otherwise.
\<close>

definition repr_str :: "string \<Rightarrow> string" where
  "repr_str s =
     (let q = (if CHR 0x27 \<in> set s \<and> CHR 0x22 \<notin> set s then CHR 0x22 else CHR 0x27)
      in [q] @ concat (map (repr_char q) s) @ [q])"

fun join :: "string \<Rightarrow> string list \<Rightarrow> string" where
  "join sep [] = []"
| "join sep [x] = x"
| "join sep (x # y # ys) = x @ sep @ join sep (y # ys)"

text \<open>\<open>repr\<close> of a list of pairs of strings, as \<open>repr(errs)\<close> in \<open>load_model\<close>.\<close>

definition repr_pair :: "string \<times> string \<Rightarrow> string" where
  "repr_pair p = ''('' @ repr_str (fst p) @ '', '' @ repr_str (snd p) @ '')''"

definition repr_errs :: "(string \<times> string) list \<Rightarrow> string" where
  "repr_errs errs = ''['' @ join '', '' (map repr_pair errs) @ '']''"

subsection \<open>The form, the data frame, JSON\<close>

text \<open>
  \<open>request.form\<close> is a multi-dict: the submitted pairs in order, a key possibly more
  than once; \<open>form.get(key, default)\<close> is the first value of the key.
\<close>

type_synonym form = "(string \<times> string) list"

definition form_get :: "form \<Rightarrow> string \<Rightarrow> string \<Rightarrow> string" where
  "form_get form key dflt = (case map_of form key of Some v \<Rightarrow> v | None \<Rightarrow> dflt)"

record 'v dataframe =
  columns :: "string list"
  rows :: "'v list list"

text \<open>
  \<open>pd.DataFrame(data, columns=cols)\<close> on a list of rows: it raises \<open>ValueError\<close> when a
  row has not one value per column (the wording of pandas' message is not modelled).
\<close>

definition DataFrame :: "'v list list \<Rightarrow> string list \<Rightarrow> exn + 'v dataframe" where
  "DataFrame data cols =
     (if list_all (\<lambda>r. length r = length cols) data
      then Inr \<lparr>columns = cols, rows = data\<rparr>
      else Inl (ValueError ''columns passed do not match the data''))"

text \<open>
  A Python \<open>dict\<close> is the list of its items in insertion order. \<open>dict(pairs)\<close> stores
  the pairs one by one: storing under a key already there replaces its value in place.
\<close>

definition dict :: "('k \<times> 'a) list \<Rightarrow> ('k \<times> 'a) list" where
  "dict ps = foldl (\<lambda>d p. AList.update (fst p) (snd p) d) [] ps"

text \<open>\<open>df.to_dict(orient="records")\<close>: one dictionary per row, keyed by column.\<close>

definition to_dict_records :: "'v dataframe \<Rightarrow> (string \<times> 'v) list list" where
  "to_dict_records df = map (\<lambda>r. dict (zip (columns df) r)) (rows df)"

text \<open>\<open>xs[0]\<close>, which raises \<open>IndexError\<close> on an empty list.\<close>

definition item0 :: "'a list \<Rightarrow> exn + 'a" where
  "item0 xs = (case xs of [] \<Rightarrow> Inl (OtherError ''list index out of range'') | x # _ \<Rightarrow> Inr x)"

datatype 'v json =
    JBool bool
  | JNum 'v
  | JStr string
  | JObj "(string \<times> 'v json) list"

record 'v response =
  body :: "'v json"
  status :: nat

text \<open>\<open>jsonify(d)\<close> alone answers with status 200; \<open>jsonify(d), n\<close> with status \<open>n\<close>.\<close>

definition jsonify :: "(string \<times> 'v json) list \<Rightarrow> nat \<Rightarrow> 'v response" where
  "jsonify d n = \<lparr>body = JObj d, status = n\<rparr>"

section \<open>app.py\<close>

subsection \<open>load_model\<close>

text \<open>
  The three deserializers are outside the repository. Each is a function of the path
  that returns the loaded object or fails with an exception derived from \<open>Exception\<close>;
  a loaded object is any Python object, so it is \<open>'m option\<close> with \<open>None\<close> for Python's
  \<open>None\<close>. Each \<open>try\<close> block (the import, the \<open>open\<close> and the \<open>load\<close>) is one such
  function.
\<close>

record 'm loaders =
  joblib_load :: "string \<Rightarrow> exn + 'm option"
  pickle_load_latin1 :: "string \<Rightarrow> exn + 'm option"
  dill_load :: "string \<Rightarrow> exn + 'm option"

definition load_model :: "'m loaders \<Rightarrow> string \<Rightarrow> exn + 'm option" where
  "load_model ld path =
     (let errs = [] in
      case joblib_load ld path of
        Inr m \<Rightarrow> Inr m
      | Inl e \<Rightarrow>
         (let errs = errs @ [(''joblib'', str_exn e)] in
          case pickle_load_latin1 ld path of
            Inr m \<Rightarrow> Inr m
          | Inl e \<Rightarrow>
             (let errs = errs @ [(''pickle_latin1'', str_exn e)] in
              case dill_load ld path of
                Inr m \<Rightarrow> Inr m
              | Inl e \<Rightarrow>
                 (let errs = errs @ [(''dill'', str_exn e)] in
                  Inl (RuntimeError
                    (''Model could not be loaded. Tried joblib, pickle(latin1), dill. Errors: ''
                       @ repr_errs errs))))))"

subsection \<open>Module globals and startup\<close>

definition FEATURES :: "string list" where
  "FEATURES =
     [''Number_of_Customers_Per_Day'',
      ''Average_Order_Value'',
      ''Operating_Hours_Per_Day'',
      ''Number_of_Employees'',
      ''Marketing_Spend_Per_Day'',
      ''Location_Foot_Traffic'']"

text \<open>\<open>os.path.join("models", "coffee.pkl")\<close>, with the POSIX separator.\<close>

definition MODEL_PATH :: string where
  "MODEL_PATH = ''models/coffee.pkl''"

text \<open>
  The module's global variables. \<open>g_model\<close> is \<open>None\<close> when the Python variable
  \<open>model\<close> is \<open>None\<close>, and likewise \<open>g_model_load_error\<close>.
\<close>

record 'm globals =
  g_FEATURES :: "string list"
  g_model :: "'m option"
  g_model_load_error :: "string option"

text \<open>The module's top-level statements: the \<open>try\<close>/\<open>except\<close>/\<open>else\<close> around \<open>load_model\<close>.\<close>

definition startup :: "'m loaders \<Rightarrow> 'm globals" where
  "startup ld =
     (case load_model ld MODEL_PATH of
        Inl e \<Rightarrow> \<lparr>g_FEATURES = FEATURES, g_model = None, g_model_load_error = Some (str_exn e)\<rparr>
      | Inr m \<Rightarrow> \<lparr>g_FEATURES = FEATURES, g_model = m, g_model_load_error = None\<rparr>)"

subsection \<open>prepare_input\<close>

text \<open>
  The builtin \<open>float\<close> applied to a string is the parameter \<open>pyfloat\<close>: \<open>None\<close> when it
  raises \<open>ValueError\<close>, the float otherwise. \<open>prepare_loop\<close> is the \<open>for\<close> loop over the
  remaining features, with the list \<open>values\<close> collected so far.
\<close>

fun prepare_loop ::
  "(string \<Rightarrow> 'v option) \<Rightarrow> form \<Rightarrow> string list \<Rightarrow> 'v list \<Rightarrow> exn + 'v list" where
  "prepare_loop pyfloat form [] values = Inr values"
| "prepare_loop pyfloat form (feat # feats) values =
     (let raw = strip (form_get form feat '''') in
      if raw = '''' then Inl (ValueError (''Missing value for '' @ feat))
      else case pyfloat raw of
             None \<Rightarrow> Inl (ValueError
                       (''Invalid numeric value for '' @ feat @ '': '' @ [CHR 0x27] @ raw @ [CHR 0x27]))
           | Some val \<Rightarrow> prepare_loop pyfloat form feats (values @ [val]))"

definition prepare_input ::
  "(string \<Rightarrow> 'v option) \<Rightarrow> 'm globals \<Rightarrow> form \<Rightarrow> exn + 'v dataframe" where
  "prepare_input pyfloat g form =
     (case prepare_loop pyfloat form (g_FEATURES g) [] of
        Inl e \<Rightarrow> Inl e
      | Inr values \<Rightarrow> DataFrame [values] (g_FEATURES g))"

subsection \<open>predict\<close>

text \<open>
  The loaded model is an opaque object. The handler applies three operations to it and
  to what it returns: \<open>model.predict(df)\<close>, \<open>pred[0]\<close> and \<open>float(pred[0])\<close>. Each of
  them returns or raises, an error or an exception that is not derived from
  \<open>Exception\<close>, and each can change the frame \<open>df\<close> in place, which the handler reads
  again after the call: an operation takes the frame and returns its outcome together
  with the frame as it leaves it. An object without a \<open>predict\<close> method is a model
  whose \<open>predict_m\<close> raises.
\<close>

type_synonym ('v, 'a) call = "'v dataframe \<Rightarrow> (thrown + 'a) \<times> 'v dataframe"

record ('v, 'p, 'q) pymodel =
  predict_m :: "('v, 'p) call"
  getitem0 :: "'p \<Rightarrow> ('v, 'q) call"
  float_of :: "'q \<Rightarrow> ('v, 'v) call"

text \<open>An operation that returns or raises an error and leaves the frame as it is.\<close>

definition pure_call :: "exn + 'a \<Rightarrow> ('v, 'a) call" where
  "pure_call r df = (case r of Inl e \<Rightarrow> (Inl (Exc e), df) | Inr x \<Rightarrow> (Inr x, df))"

text \<open>\<open>x or d\<close> for an optional string \<open>x\<close>: \<open>None\<close> and the empty string are falsy.\<close>

definition or_str :: "string option \<Rightarrow> string \<Rightarrow> string" where
  "or_str x d = (case x of None \<Rightarrow> d | Some s \<Rightarrow> if s = [] then d else s)"

text \<open>
  The body of the second \<open>try\<close> block of \<open>predict\<close>: the outcome, and the frame after it.
\<close>

definition invoke :: "('v, 'p, 'q) pymodel \<Rightarrow> ('v, 'v) call" where
  "invoke model df =
     (case predict_m model df of
        (Inl t, df1) \<Rightarrow> (Inl t, df1)
      | (Inr pred, df1) \<Rightarrow>
         (case getitem0 model pred df1 of
            (Inl t, df2) \<Rightarrow> (Inl t, df2)
          | (Inr x, df2) \<Rightarrow> float_of model x df2))"

text \<open>
  The view function. It returns the response, or \<open>Inl\<close> the exception that leaves it
  unhandled, together with the module globals after the call. \<open>except Exception\<close>
  handles \<open>Exc e\<close> and lets \<open>Base b\<close> pass; the echo of the input, built after the
  second \<open>try\<close> block, reads the frame as the model left it.
\<close>

definition predict ::
  "(string \<Rightarrow> 'v option) \<Rightarrow> ('v, 'p, 'q) pymodel globals \<Rightarrow> form
     \<Rightarrow> (thrown + 'v response) \<times> ('v, 'p, 'q) pymodel globals" where
  "predict pyfloat g form =
     (case g_model g of
        None \<Rightarrow>
          (Inr (jsonify [(''success'', JBool False),
                         (''error'', JStr (''Model not loaded: ''
                                            @ or_str (g_model_load_error g) ''unknown''))] 500), g)
      | Some model \<Rightarrow>
         (case prepare_input pyfloat g form of
            Inl e \<Rightarrow>
              (Inr (jsonify [(''success'', JBool False), (''error'', JStr (str_exn e))] 400), g)
          | Inr df \<Rightarrow>
             (case invoke model df of
                (Inl (Exc e), df') \<Rightarrow>
                  (Inr (jsonify [(''success'', JBool False),
                                 (''error'', JStr (''Model prediction failed: '' @ str_exn e))] 500), g)
              | (Inl (Base b), df') \<Rightarrow> (Inl (Base b), g)
              | (Inr revenue, df') \<Rightarrow>
                 (case item0 (to_dict_records df') of
                    Inl e \<Rightarrow> (Inl (Exc e), g)
                  | Inr d \<Rightarrow>
                      (Inr (jsonify [(''success'', JBool True),
                                     (''prediction'', JNum revenue),
                                     (''input'', JObj (map (\<lambda>kv. (fst kv, JNum (snd kv))) d))] 200),
                       g)))))"

text \<open>Requests handled one after the other, each on the globals the previous one left.\<close>

fun serve ::
  "(string \<Rightarrow> 'v option) \<Rightarrow> ('v, 'p, 'q) pymodel globals \<Rightarrow> form list
     \<Rightarrow> (thrown + 'v response) list \<times> ('v, 'p, 'q) pymodel globals" where
  "serve pyfloat g [] = ([], g)"
| "serve pyfloat g (form # forms) =
     (let (r, g') = predict pyfloat g form;
          (rs, g'') = serve pyfloat g' forms
      in (r # rs, g''))"

section \<open>The builtin \<open>float\<close> on strings\<close>

text \<open>
  A model of \<open>float(s)\<close> for the examples below, after the grammar of the language
  reference: an optional sign, then \<open>inf\<close>, \<open>infinity\<close> or \<open>nan\<close> in any case, or a
  decimal number with an optional exponent, digits possibly grouped by single
  underscores, surrounded by whitespace. \<open>Finite q\<close> stands for the binary64 number
  nearest to \<open>q\<close>: rounding is not modelled (it is the identity on the numbers of the
  examples), nor is the sign of zero; a number too large for binary64 is an infinity.
\<close>

datatype float64 = Finite rat | PosInf | NegInf | NaN

definition isdigit :: "char \<Rightarrow> bool" where
  "isdigit c \<longleftrightarrow> c \<in> set ''0123456789''"

definition digit_val :: "char \<Rightarrow> nat" where
  "digit_val c = of_char c - 48"

definition ascii_lower :: "char \<Rightarrow> char" where
  "ascii_lower c =
     (case map_of (zip ''ABCDEFGHIJKLMNOPQRSTUVWXYZ'' ''abcdefghijklmnopqrstuvwxyz'') c of
        Some d \<Rightarrow> d
      | None \<Rightarrow> c)"

text \<open>
  \<open>digitpart n k s\<close> reads digits, and underscores between two digits, from the front
  of \<open>s\<close>: the number read (continuing \<open>n\<close>), how many digits it has (continuing \<open>k\<close>),
  and the rest of \<open>s\<close>.
\<close>

fun digitpart :: "nat \<Rightarrow> nat \<Rightarrow> string \<Rightarrow> nat \<times> nat \<times> string" where
  "digitpart n k [] = (n, k, [])"
| "digitpart n k (c # cs) =
     (if isdigit c then digitpart (10 * n + digit_val c) (Suc k) cs
      else if c = CHR ''_'' \<and> 0 < k \<and> (case cs of [] \<Rightarrow> False | d # _ \<Rightarrow> isdigit d)
        then digitpart n k cs
      else (n, k, c # cs))"

definition sign_split :: "string \<Rightarrow> bool \<times> string" where
  "sign_split s =
     (case s of
        [] \<Rightarrow> (False, [])
      | c # cs \<Rightarrow> if c = CHR ''-'' then (True, cs)
                 else if c = CHR ''+'' then (False, cs)
                 else (False, s))"

text \<open>What follows the digits of a number: nothing, or an exponent and nothing else.\<close>

definition exponent :: "string \<Rightarrow> int option" where
  "exponent s =
     (case s of
        [] \<Rightarrow> Some 0
      | c # cs \<Rightarrow>
         if c = CHR ''e'' \<or> c = CHR ''E'' then
           (let (neg, r) = sign_split cs; (n, k, r') = digitpart 0 0 r
            in if 0 < k \<and> r' = [] then Some (if neg then - int n else int n) else None)
         else None)"

definition scale10 :: "rat \<Rightarrow> int \<Rightarrow> rat" where
  "scale10 q e = (if 0 \<le> e then q * 10 ^ nat e else q / 10 ^ nat (- e))"

definition number :: "string \<Rightarrow> rat option" where
  "number s =
     (let (n, k, r) = digitpart 0 0 s;
          (m, j, r') = (case r of
                          [] \<Rightarrow> (0, 0, r)
                        | c # cs \<Rightarrow> if c = CHR ''.'' then digitpart 0 0 cs else (0, 0, r))
      in if k + j = 0 then None
         else case exponent r' of
                None \<Rightarrow> None
              | Some e \<Rightarrow> Some (scale10 (of_nat n + of_nat m / 10 ^ j) e))"

definition py_float :: "string \<Rightarrow> float64 option" where
  "py_float s =
     (let (neg, r) = sign_split (strip s); l = map ascii_lower r in
      if l = ''inf'' \<or> l = ''infinity'' then Some (if neg then NegInf else PosInf)
      else if l = ''nan'' then Some NaN
      else case number r of
             None \<Rightarrow> None
           | Some q \<Rightarrow>
               Some (if 2 ^ 1024 - 2 ^ 970 \<le> q then (if neg then NegInf else PosInf)
                     else Finite (if neg then - q else q)))"

section \<open>Vocabulary of the properties\<close>

text \<open>
  \<open>raw_of form feat\<close> is the variable \<open>raw\<close> of \<open>prepare_input\<close> for the feature
  \<open>feat\<close>. A field is accepted when that value is not empty and \<open>float\<close> parses it;
  \<open>field_error\<close> is the exception \<open>prepare_input\<close> raises for a field it rejects.
\<close>

definition raw_of :: "form \<Rightarrow> string \<Rightarrow> string" where
  "raw_of form feat = strip (form_get form feat '''')"

definition blank :: "form \<Rightarrow> string \<Rightarrow> bool" where
  "blank form feat \<longleftrightarrow> raw_of form feat = []"

definition non_numeric :: "(string \<Rightarrow> 'v option) \<Rightarrow> form \<Rightarrow> string \<Rightarrow> bool" where
  "non_numeric pyfloat form feat \<longleftrightarrow> raw_of form feat \<noteq> [] \<and> pyfloat (raw_of form feat) = None"

definition field_ok :: "(string \<Rightarrow> 'v option) \<Rightarrow> form \<Rightarrow> string \<Rightarrow> bool" where
  "field_ok pyfloat form feat \<longleftrightarrow> raw_of form feat \<noteq> [] \<and> pyfloat (raw_of form feat) \<noteq> None"

definition missing_error :: "string \<Rightarrow> exn" where
  "missing_error feat = ValueError (''Missing value for '' @ feat)"

definition invalid_error :: "string \<Rightarrow> string \<Rightarrow> exn" where
  "invalid_error feat raw =
     ValueError (''Invalid numeric value for '' @ feat @ '': '' @ [CHR 0x27] @ raw @ [CHR 0x27])"

definition field_error :: "form \<Rightarrow> string \<Rightarrow> exn" where
  "field_error form feat =
     (if raw_of form feat = [] then missing_error feat
      else invalid_error feat (raw_of form feat))"

text \<open>
  A string that \<open>repr\<close> only puts between quotes: printable characters, no backslash,
  and not both kinds of quote.
\<close>

definition repr_plain :: "string \<Rightarrow> bool" where
  "repr_plain s \<longleftrightarrow>
     list_all (\<lambda>c. isprintable c \<and> c \<noteq> CHR 0x5C) s \<and> \<not> (CHR 0x27 \<in> set s \<and> CHR 0x22 \<in> set s)"

text \<open>The message of the \<open>RuntimeError\<close> of \<open>load_model\<close> for three failure reasons.\<close>

definition load_failure_message :: "string \<Rightarrow> string \<Rightarrow> string \<Rightarrow> string" where
  "load_failure_message r1 r2 r3 =
     ''Model could not be loaded. Tried joblib, pickle(latin1), dill. Errors: ''
       @ repr_errs [(''joblib'', r1), (''pickle_latin1'', r2), (''dill'', r3)]"

text \<open>The failure body and the success body of the JSON interface.\<close>

definition failure_body :: "string \<Rightarrow> 'v json" where
  "failure_body msg = JObj [(''success'', JBool False), (''error'', JStr msg)]"


section \<open>Example data\<close>

text \<open>A stub model whose \<open>predict\<close> returns \<open>[42.0]\<close>, and globals that hold it.\<close>

definition stub_model :: "(float64, float64 list, float64) pymodel" where
  "stub_model =
     \<lparr>predict_m = pure_call (Inr [Finite 42]),
      getitem0 = (\<lambda>pred. pure_call (item0 pred)),
      float_of = (\<lambda>x. pure_call (Inr x))\<rparr>"

definition g_stub :: "(float64, float64 list, float64) pymodel globals" where
  "g_stub = \<lparr>g_FEATURES = FEATURES, g_model = Some stub_model, g_model_load_error = None\<rparr>"



definition canonical_form :: form where
  "canonical_form =
     [(''Number_of_Customers_Per_Day'', ''100''),
      (''Average_Order_Value'', ''5.5''),
      (''Operating_Hours_Per_Day'', ''10''),
      (''Number_of_Employees'', ''3''),
      (''Marketing_Spend_Per_Day'', ''20''),
      (''Location_Foot_Traffic'', ''200'')]"

definition canonical_values :: "float64 list" where
  "canonical_values = [Finite 100, Finite (11 / 2), Finite 10, Finite 3, Finite 20, Finite 200]"

text \<open>Deserializers that all fail, and deserializers of which only the third succeeds.\<close>

definition no_module :: "string \<Rightarrow> exn" where
  "no_module name = OtherError (''No module named '' @ [CHR 0x27] @ name @ [CHR 0x27])"

definition no_file :: "string \<Rightarrow> exn" where
  "no_file path =
     OtherError (''[Errno 2] No such file or directory: '' @ [CHR 0x27] @ path @ [CHR 0x27])"

definition failing_loaders :: "(float64, float64 list, float64) pymodel loaders" where
  "failing_loaders =
     \<lparr>joblib_load = (\<lambda>path. Inl (no_module ''joblib'')),
      pickle_load_latin1 = (\<lambda>path. Inl (no_file path)),
      dill_load = (\<lambda>path. Inl (no_module ''dill''))\<rparr>"

definition dill_only_loaders :: "(float64, float64 list, float64) pymodel loaders" where
  "dill_only_loaders =
     \<lparr>joblib_load = (\<lambda>path. Inl (no_module ''joblib'')),
      pickle_load_latin1 = (\<lambda>path. Inl (OtherError ''invalid load key, x'')),
      dill_load = (\<lambda>path. Inr (Some stub_model))\<rparr>"

text \<open>A submission of non-finite and exponent literals, and the floats they denote.\<close>

definition nonfinite_form :: form where
  "nonfinite_form =
     [(''Number_of_Customers_Per_Day'', ''nan''),
      (''Average_Order_Value'', ''inf''),
      (''Operating_Hours_Per_Day'', ''-infinity''),
      (''Number_of_Employees'', ''1e5''),
      (''Marketing_Spend_Per_Day'', '' Infinity ''),
      (''Location_Foot_Traffic'', ''-NaN'')]"

definition nonfinite_values :: "float64 list" where
  "nonfinite_values = [NaN, PosInf, NegInf, Finite 100000, PosInf, NaN]"

text \<open>A model whose \<open>predict\<close> returns the first row of the frame it is given.\<close>

definition echo_model :: "(float64, float64 list, float64) pymodel" where
  "echo_model =
     \<lparr>predict_m = (\<lambda>df. pure_call (item0 (rows df)) df),
      getitem0 = (\<lambda>pred. pure_call (item0 pred)),
      float_of = (\<lambda>x. pure_call (Inr x))\<rparr>"

definition g_echo :: "(float64, float64 list, float64) pymodel globals" where
  "g_echo = \<lparr>g_FEATURES = FEATURES, g_model = Some echo_model, g_model_load_error = None\<rparr>"





text \<open>Globals after a startup at which no deserializer succeeded.\<close>

definition g_unloaded :: "(float64, float64 list, float64) pymodel globals" where
  "g_unloaded = startup failing_loaders"

text \<open>
  The canonical submission in another order, with a key that is not a feature and a
  second value for one feature.
\<close>

definition noisy_form :: form where
  "noisy_form =
     [(''csrf_token'', ''4fd1''),
      (''Location_Foot_Traffic'', ''200''),
      (''Marketing_Spend_Per_Day'', ''20''),
      (''Number_of_Employees'', ''3''),
      (''Operating_Hours_Per_Day'', ''10''),
      (''Average_Order_Value'', ''5.5''),
      (''Number_of_Customers_Per_Day'', ''100''),
      (''Average_Order_Value'', ''999'')]"

text \<open>The two quote characters, as strings.\<close>

definition sq :: string where
  "sq = [CHR 0x27]"

definition dq :: string where
  "dq = [CHR 0x22]"

section \<open>Properties of prepare_input\<close>

lemma prepare_loop_ok:
  "list_all (field_ok pyfloat form) feats \<Longrightarrow>
     prepare_loop pyfloat form feats acc =
       Inr (acc @ map (\<lambda>f. the (pyfloat (raw_of form f))) feats)"
  by (induction feats arbitrary: acc) (auto simp: field_ok_def raw_of_def)

lemma prepare_loop_first_bad:
  "list_all (field_ok pyfloat form) pre \<Longrightarrow> \<not> field_ok pyfloat form feat \<Longrightarrow>
     prepare_loop pyfloat form (pre @ feat # post) acc = Inl (field_error form feat)"
  by (induction pre arbitrary: acc)
     (auto simp: field_ok_def raw_of_def field_error_def missing_error_def invalid_error_def)

lemma prepare_loop_length:
  "prepare_loop pyfloat form feats acc = Inr vs \<Longrightarrow> length vs = length acc + length feats"
  by (induction feats arbitrary: acc) (auto simp: Let_def split: if_splits option.splits)

lemma first_rejected:
  assumes "\<not> list_all (field_ok pyfloat form) feats"
  obtains pre feat post where "feats = pre @ feat # post"
    and "list_all (field_ok pyfloat form) pre" and "\<not> field_ok pyfloat form feat"
proof -
  from assms have "\<exists>f\<in>set feats. \<not> field_ok pyfloat form f"
    by (simp add: list_all_iff)
  from split_list_first_prop[OF this]
  obtain pre feat post where "feats = pre @ feat # post" "\<not> field_ok pyfloat form feat"
    "\<forall>p\<in>set pre. field_ok pyfloat form p"
    by blast
  then show thesis
    using that by (simp add: list_all_iff)
qed

lemma prepare_loop_Inr_iff:
  "(\<exists>vs. prepare_loop pyfloat form feats acc = Inr vs) \<longleftrightarrow> list_all (field_ok pyfloat form) feats"
proof
  assume ok: "\<exists>vs. prepare_loop pyfloat form feats acc = Inr vs"
  show "list_all (field_ok pyfloat form) feats"
  proof (rule ccontr)
    assume "\<not> list_all (field_ok pyfloat form) feats"
    then obtain pre feat post where "feats = pre @ feat # post"
      "list_all (field_ok pyfloat form) pre" "\<not> field_ok pyfloat form feat"
      by (rule first_rejected)
    then have "prepare_loop pyfloat form feats acc = Inl (field_error form feat)"
      by (simp add: prepare_loop_first_bad)
    with ok show False by simp
  qed
next
  assume "list_all (field_ok pyfloat form) feats"
  then show "\<exists>vs. prepare_loop pyfloat form feats acc = Inr vs"
    by (simp add: prepare_loop_ok)
qed

lemma prepare_input_ok:
  "list_all (field_ok pyfloat form) (g_FEATURES g) \<Longrightarrow>
     prepare_input pyfloat g form =
       Inr \<lparr>columns = g_FEATURES g,
            rows = [map (\<lambda>f. the (pyfloat (raw_of form f))) (g_FEATURES g)]\<rparr>"
  by (simp add: prepare_input_def prepare_loop_ok DataFrame_def)

lemma prepare_input_first_bad:
  "g_FEATURES g = pre @ feat # post \<Longrightarrow> list_all (field_ok pyfloat form) pre \<Longrightarrow>
   \<not> field_ok pyfloat form feat \<Longrightarrow>
     prepare_input pyfloat g form = Inl (field_error form feat)"
  by (simp add: prepare_input_def prepare_loop_first_bad)

lemma prepare_input_Inr_iff:
  "(\<exists>df. prepare_input pyfloat g form = Inr df) \<longleftrightarrow>
     list_all (field_ok pyfloat form) (g_FEATURES g)"
proof
  assume "\<exists>df. prepare_input pyfloat g form = Inr df"
  then have "\<exists>vs. prepare_loop pyfloat form (g_FEATURES g) [] = Inr vs"
    by (auto simp: prepare_input_def split: sum.splits)
  then show "list_all (field_ok pyfloat form) (g_FEATURES g)"
    by (simp add: prepare_loop_Inr_iff)
next
  assume "list_all (field_ok pyfloat form) (g_FEATURES g)"
  then show "\<exists>df. prepare_input pyfloat g form = Inr df"
    by (simp add: prepare_input_ok)
qed

lemma prepare_input_rows:
  "prepare_input pyfloat g form = Inr df \<Longrightarrow>
     columns df = g_FEATURES g \<and> (\<exists>vs. rows df = [vs] \<and> length vs = length (g_FEATURES g))"
  by (auto simp: prepare_input_def DataFrame_def dest: prepare_loop_length
           split: sum.splits if_splits)

lemmas py_float_defs = py_float_def number_def exponent_def sign_split_def scale10_def strip_def
  isspace_def isdigit_def digit_val_def ascii_lower_def

lemma submitted_values:
  "map (map_of form) feats = map Some ss \<Longrightarrow>
   list_all2 (\<lambda>s x. strip s \<noteq> [] \<and> pyfloat (strip s) = Some x) ss xs \<Longrightarrow>
     list_all (field_ok pyfloat form) feats \<and> map (\<lambda>f. the (pyfloat (raw_of form f))) feats = xs"
proof (induction feats arbitrary: ss xs)
  case Nil
  then show ?case by simp
next
  case (Cons f feats)
  from Cons.prems(1) obtain s ss' where ss: "ss = s # ss'" and s: "map_of form f = Some s"
    and rest: "map (map_of form) feats = map Some ss'"
    by (cases ss) auto
  from Cons.prems(2) ss obtain x xs' where xs: "xs = x # xs'"
    and x: "strip s \<noteq> []" "pyfloat (strip s) = Some x"
    and rest2: "list_all2 (\<lambda>s x. strip s \<noteq> [] \<and> pyfloat (strip s) = Some x) ss' xs'"
    by (cases xs) auto
  from s have raw: "raw_of form f = strip s"
    by (simp add: raw_of_def form_get_def)
  from Cons.IH[OF rest rest2] raw x xs show ?case
    by (simp add: field_ok_def)
qed

lemma last_dropWhile: "dropWhile P xs \<noteq> [] \<Longrightarrow> last (dropWhile P xs) = last xs"
  by (induction xs) (auto split: if_splits)

lemma strip_idem: "strip (strip s) = strip s"
proof -
  define t where "t = dropWhile isspace s"
  define u where "u = dropWhile isspace (rev t)"
  have s: "strip s = rev u"
    by (simp add: strip_def t_def u_def)
  have "dropWhile isspace (rev u) = rev u"
  proof (cases "u = []")
    case True
    then show ?thesis by simp
  next
    case False
    then have "last u = last (rev t)"
      unfolding u_def by (rule last_dropWhile)
    moreover from False have "t \<noteq> []"
      by (auto simp: u_def)
    ultimately have "last u = hd t"
      by (simp add: last_rev)
    moreover from \<open>t \<noteq> []\<close> have "\<not> isspace (hd t)"
      unfolding t_def by (rule hd_dropWhile)
    ultimately have "\<not> isspace (hd (rev u))"
      using False by (simp add: hd_rev)
    then show ?thesis
      by (simp add: dropWhile_eq_self_iff)
  qed
  moreover have "dropWhile isspace u = u"
    by (simp add: u_def)
  ultimately have "strip (rev u) = rev u"
    by (simp add: strip_def)
  with s show ?thesis by simp
qed

text \<open>The model of \<open>float\<close> ignores surrounding whitespace, as \<open>float\<close> does.\<close>

lemma py_float_strip: "py_float (strip s) = py_float s"
  by (simp add: py_float_def strip_idem)

text \<open>
  Claim C1. A submission that holds, for each of the six schema fields in order, a value
  that is not blank and that \<open>float\<close> parses once trimmed, makes \<open>prepare_input\<close> return
  a data frame whose columns are the six schema fields in schema order and whose single
  row holds the parsed floats in that order. Since \<open>float\<close> ignores surrounding
  whitespace, these are the floats of the submitted strings themselves.
\<close>

theorem prepare_input_valid_submission:
  assumes "g_FEATURES g = FEATURES"
    and "map (map_of form) FEATURES = map Some ss"
    and "list_all2 (\<lambda>s x. strip s \<noteq> [] \<and> pyfloat (strip s) = Some x) ss xs"
  shows "prepare_input pyfloat g form = Inr \<lparr>columns = FEATURES, rows = [xs]\<rparr> \<and>
         length xs = 6 \<and>
         ((\<forall>s. pyfloat (strip s) = pyfloat s) \<longrightarrow> list_all2 (\<lambda>s x. pyfloat s = Some x) ss xs)"
proof -
  from submitted_values[OF assms(2) assms(3)]
  have ok: "list_all (field_ok pyfloat form) FEATURES"
    and vals: "map (\<lambda>f. the (pyfloat (raw_of form f))) FEATURES = xs"
    by simp_all
  from ok assms(1) have "prepare_input pyfloat g form =
      Inr \<lparr>columns = FEATURES, rows = [map (\<lambda>f. the (pyfloat (raw_of form f))) FEATURES]\<rparr>"
    by (simp add: prepare_input_ok)
  with vals have frame: "prepare_input pyfloat g form = Inr \<lparr>columns = FEATURES, rows = [xs]\<rparr>"
    by simp
  from vals have "length xs = length FEATURES"
    by (metis length_map)
  then have six: "length xs = 6"
    by (simp add: FEATURES_def)
  have "list_all2 (\<lambda>s x. pyfloat s = Some x) ss xs" if "\<forall>s. pyfloat (strip s) = pyfloat s"
    using assms(3) that by (auto elim!: list_all2_mono)
  with frame six show ?thesis
    by blast
qed

lemma canonical_parse:
  "py_float ''100'' = Some (Finite 100)" "py_float ''5.5'' = Some (Finite (11 / 2))"
  "py_float ''10'' = Some (Finite 10)" "py_float ''3'' = Some (Finite 3)"
  "py_float ''20'' = Some (Finite 20)" "py_float ''200'' = Some (Finite 200)"
  by (simp_all add: py_float_defs)

theorem prepare_input_valid_submission_witness:
  "g_FEATURES g_stub = FEATURES \<and>
   map (map_of canonical_form) FEATURES = map Some [''100'', ''5.5'', ''10'', ''3'', ''20'', ''200''] \<and>
   list_all2 (\<lambda>s x. strip s \<noteq> [] \<and> py_float (strip s) = Some x)
     [''100'', ''5.5'', ''10'', ''3'', ''20'', ''200''] canonical_values \<and>
   prepare_input py_float g_stub canonical_form = Inr \<lparr>columns = FEATURES, rows = [canonical_values]\<rparr> \<and>
   list_all2 (\<lambda>s x. py_float s = Some x)
     [''100'', ''5.5'', ''10'', ''3'', ''20'', ''200''] canonical_values"
proof -
  have h1: "g_FEATURES g_stub = FEATURES"
    by (simp add: g_stub_def)
  have h2: "map (map_of canonical_form) FEATURES
      = map Some [''100'', ''5.5'', ''10'', ''3'', ''20'', ''200'']"
    by (simp add: canonical_form_def FEATURES_def)
  have st: "strip ''100'' = ''100''" "strip ''5.5'' = ''5.5''" "strip ''10'' = ''10''"
    "strip ''3'' = ''3''" "strip ''20'' = ''20''" "strip ''200'' = ''200''"
    by (simp_all add: strip_def isspace_def)
  have h3: "list_all2 (\<lambda>s x. strip s \<noteq> [] \<and> py_float (strip s) = Some x)
      [''100'', ''5.5'', ''10'', ''3'', ''20'', ''200''] canonical_values"
    by (simp add: canonical_values_def st canonical_parse)
  from prepare_input_valid_submission[OF h1 h2 h3] py_float_strip h1 h2 h3 show ?thesis
    by blast
qed

lemma FEATURES_split:
  "FEATURES = [] @ ''Number_of_Customers_Per_Day'' #
      [''Average_Order_Value'', ''Operating_Hours_Per_Day'', ''Number_of_Employees'',
       ''Marketing_Spend_Per_Day'', ''Location_Foot_Traffic'']"
  "FEATURES = [''Number_of_Customers_Per_Day''] @ ''Average_Order_Value'' #
      [''Operating_Hours_Per_Day'', ''Number_of_Employees'',
       ''Marketing_Spend_Per_Day'', ''Location_Foot_Traffic'']"
  by (simp_all add: FEATURES_def)

lemma prepare_input_fails:
  "\<not> list_all (field_ok pyfloat form) (g_FEATURES g) \<Longrightarrow> \<exists>e. prepare_input pyfloat g form = Inl e"
  using prepare_input_Inr_iff[of pyfloat g form]
  by (cases "prepare_input pyfloat g form") auto

lemma blank_not_ok: "blank form feat \<Longrightarrow> \<not> field_ok pyfloat form feat"
  by (simp add: blank_def field_ok_def)

lemma non_numeric_not_ok: "non_numeric pyfloat form feat \<Longrightarrow> \<not> field_ok pyfloat form feat"
  by (simp add: non_numeric_def field_ok_def)

lemma field_error_blank: "blank form feat \<Longrightarrow> field_error form feat = missing_error feat"
  by (simp add: blank_def field_error_def)

lemma field_error_non_numeric:
  "non_numeric pyfloat form feat \<Longrightarrow> field_error form feat = invalid_error feat (raw_of form feat)"
  by (simp add: non_numeric_def field_error_def)

text \<open>
  Claim C5, as the code has it. A submission in which a schema field is absent or blank
  after trimming makes \<open>prepare_input\<close> fail. When every schema field before that field
  holds a value that is not blank and that \<open>float\<close> parses, the error is
  \<open>Missing value for X\<close>, \<open>X\<close> being that field, which is then the first blank field
  in schema order.
\<close>

theorem prepare_input_blank_field:
  assumes "g_FEATURES g = FEATURES"
    and "FEATURES = pre @ feat # post"
    and "blank form feat"
  shows "(\<exists>e. prepare_input pyfloat g form = Inl e) \<and>
         (list_all (field_ok pyfloat form) pre \<longrightarrow>
            prepare_input pyfloat g form = Inl (ValueError (''Missing value for '' @ feat)) \<and>
            list_all (\<lambda>f. \<not> blank form f) pre)"
proof -
  from assms(3) have bad: "\<not> field_ok pyfloat form feat"
    by (rule blank_not_ok)
  then have "\<not> list_all (field_ok pyfloat form) (pre @ feat # post)"
    by simp
  then have "\<not> list_all (field_ok pyfloat form) (g_FEATURES g)"
    unfolding assms(1) assms(2) .
  then have fails: "\<exists>e. prepare_input pyfloat g form = Inl e"
    by (rule prepare_input_fails)
  have "prepare_input pyfloat g form = Inl (missing_error feat)"
    if "list_all (field_ok pyfloat form) pre"
    using prepare_input_first_bad[of g pre feat post pyfloat form] assms that bad
    by (simp add: field_error_blank)
  moreover have "list_all (\<lambda>f. \<not> blank form f) pre"
    if "list_all (field_ok pyfloat form) pre"
    using that by (auto simp: list_all_iff blank_def field_ok_def)
  ultimately show ?thesis
    using fails by (auto simp: missing_error_def)
qed

theorem prepare_input_blank_field_witness:
  "g_FEATURES g_stub = FEATURES \<and>
   blank [(''Number_of_Customers_Per_Day'', ''100''), (''Average_Order_Value'', ''   '')]
     ''Average_Order_Value'' \<and>
   list_all (field_ok py_float
       [(''Number_of_Customers_Per_Day'', ''100''), (''Average_Order_Value'', ''   '')])
     [''Number_of_Customers_Per_Day''] \<and>
   prepare_input py_float g_stub
       [(''Number_of_Customers_Per_Day'', ''100''), (''Average_Order_Value'', ''   '')]
     = Inl (ValueError ''Missing value for Average_Order_Value'')"
proof -
  let ?form = "[(''Number_of_Customers_Per_Day'', ''100''), (''Average_Order_Value'', ''   '')]"
  have h1: "g_FEATURES g_stub = FEATURES"
    by (simp add: g_stub_def)
  have h3: "blank ?form ''Average_Order_Value''"
    by (simp add: blank_def raw_of_def form_get_def strip_def isspace_def)
  have h4: "list_all (field_ok py_float ?form) [''Number_of_Customers_Per_Day'']"
    by (simp add: field_ok_def raw_of_def form_get_def py_float_defs)
  from prepare_input_blank_field[OF h1 FEATURES_split(2) h3, of py_float] h1 h3 h4
  show ?thesis
    by simp
qed

text \<open>
  The claim as written fails: the first field holds \<open>abc\<close> and the second field is
  absent, and the error is the invalid value of the first field, not a missing value.
\<close>

theorem prepare_input_blank_field_counterexample:
  "blank [(''Number_of_Customers_Per_Day'', ''abc'')] ''Average_Order_Value'' \<and>
   prepare_input py_float g_stub [(''Number_of_Customers_Per_Day'', ''abc'')]
     = Inl (ValueError (''Invalid numeric value for Number_of_Customers_Per_Day: ''
                          @ [CHR 0x27] @ ''abc'' @ [CHR 0x27])) \<and>
   prepare_input py_float g_stub [(''Number_of_Customers_Per_Day'', ''abc'')]
     \<noteq> Inl (missing_error ''Average_Order_Value'')"
  by (simp add: blank_def raw_of_def form_get_def prepare_input_def g_stub_def FEATURES_def
        missing_error_def py_float_defs)


text \<open>
  Claim C6, as the code has it. A submission in which a schema field holds a value that
  is not blank and that \<open>float\<close> rejects makes \<open>prepare_input\<close> fail. When every schema
  field before that field holds a value that is not blank and that \<open>float\<close> parses, the
  error is \<open>Invalid numeric value for X: 'raw'\<close>, with \<open>X\<close> that field and \<open>raw\<close> its
  trimmed value.
\<close>

theorem prepare_input_non_numeric_field:
  assumes "g_FEATURES g = FEATURES"
    and "FEATURES = pre @ feat # post"
    and "non_numeric pyfloat form feat"
  shows "(\<exists>e. prepare_input pyfloat g form = Inl e) \<and>
         (list_all (field_ok pyfloat form) pre \<longrightarrow>
            prepare_input pyfloat g form
              = Inl (ValueError (''Invalid numeric value for '' @ feat @ '': ''
                                   @ [CHR 0x27] @ strip (form_get form feat []) @ [CHR 0x27])))"
proof -
  from assms(3) have bad: "\<not> field_ok pyfloat form feat"
    by (rule non_numeric_not_ok)
  then have "\<not> list_all (field_ok pyfloat form) (pre @ feat # post)"
    by simp
  then have "\<not> list_all (field_ok pyfloat form) (g_FEATURES g)"
    unfolding assms(1) assms(2) .
  then have fails: "\<exists>e. prepare_input pyfloat g form = Inl e"
    by (rule prepare_input_fails)
  have "prepare_input pyfloat g form = Inl (invalid_error feat (raw_of form feat))"
    if "list_all (field_ok pyfloat form) pre"
    using prepare_input_first_bad[of g pre feat post pyfloat form] assms that bad
    by (simp add: field_error_non_numeric)
  then show ?thesis
    using fails by (simp add: invalid_error_def raw_of_def)
qed

theorem prepare_input_non_numeric_field_witness:
  "g_FEATURES g_stub = FEATURES \<and>
   non_numeric py_float
     [(''Number_of_Customers_Per_Day'', ''100''), (''Average_Order_Value'', '' abc '')]
     ''Average_Order_Value'' \<and>
   list_all (field_ok py_float
       [(''Number_of_Customers_Per_Day'', ''100''), (''Average_Order_Value'', '' abc '')])
     [''Number_of_Customers_Per_Day''] \<and>
   prepare_input py_float g_stub
       [(''Number_of_Customers_Per_Day'', ''100''), (''Average_Order_Value'', '' abc '')]
     = Inl (ValueError (''Invalid numeric value for Average_Order_Value: ''
                          @ [CHR 0x27] @ ''abc'' @ [CHR 0x27]))"
proof -
  let ?form = "[(''Number_of_Customers_Per_Day'', ''100''), (''Average_Order_Value'', '' abc '')]"
  have h1: "g_FEATURES g_stub = FEATURES"
    by (simp add: g_stub_def)
  have raw: "strip (form_get ?form ''Average_Order_Value'' []) = ''abc''"
    by (simp add: form_get_def strip_def isspace_def)
  have h3: "non_numeric py_float ?form ''Average_Order_Value''"
    by (simp add: non_numeric_def raw_of_def raw) (simp add: py_float_defs)
  have h4: "list_all (field_ok py_float ?form) [''Number_of_Customers_Per_Day'']"
    by (simp add: field_ok_def raw_of_def form_get_def py_float_defs)
  from prepare_input_non_numeric_field[OF h1 FEATURES_split(2) h3] h1 h3 h4 raw
  show ?thesis
    by simp
qed

text \<open>
  The claim as written fails: the second field holds \<open>abc\<close> and the first field is
  absent, and the error is the missing value of the first field.
\<close>

theorem prepare_input_non_numeric_field_counterexample:
  "non_numeric py_float [(''Average_Order_Value'', ''abc'')] ''Average_Order_Value'' \<and>
   prepare_input py_float g_stub [(''Average_Order_Value'', ''abc'')]
     = Inl (ValueError ''Missing value for Number_of_Customers_Per_Day'') \<and>
   prepare_input py_float g_stub [(''Average_Order_Value'', ''abc'')]
     \<noteq> Inl (invalid_error ''Average_Order_Value'' ''abc'')"
  by (simp add: non_numeric_def raw_of_def form_get_def prepare_input_def g_stub_def FEATURES_def
        invalid_error_def py_float_defs)

lemma nonfinite_parse:
  "py_float ''nan'' = Some NaN" "py_float ''inf'' = Some PosInf"
  "py_float ''-infinity'' = Some NegInf" "py_float ''1e5'' = Some (Finite 100000)"
  "py_float ''Infinity'' = Some PosInf" "py_float ''-NaN'' = Some NaN"
  by (simp_all add: py_float_defs)

lemma nonfinite_raw:
  "raw_of nonfinite_form ''Number_of_Customers_Per_Day'' = ''nan''"
  "raw_of nonfinite_form ''Average_Order_Value'' = ''inf''"
  "raw_of nonfinite_form ''Operating_Hours_Per_Day'' = ''-infinity''"
  "raw_of nonfinite_form ''Number_of_Employees'' = ''1e5''"
  "raw_of nonfinite_form ''Marketing_Spend_Per_Day'' = ''Infinity''"
  "raw_of nonfinite_form ''Location_Foot_Traffic'' = ''-NaN''"
  by (simp_all add: raw_of_def nonfinite_form_def form_get_def strip_def isspace_def)

lemma nonfinite_frame:
  "prepare_input py_float g_echo nonfinite_form
     = Inr \<lparr>columns = FEATURES, rows = [nonfinite_values]\<rparr>"
proof -
  have "list_all (field_ok py_float nonfinite_form) (g_FEATURES g_echo)"
    by (simp add: g_echo_def FEATURES_def field_ok_def nonfinite_raw nonfinite_parse)
  from prepare_input_ok[OF this] show ?thesis
    by (simp add: g_echo_def nonfinite_values_def) (simp add: FEATURES_def nonfinite_raw nonfinite_parse)
qed

text \<open>
  Claim C9. \<open>prepare_input\<close> succeeds exactly when the trimmed value of every schema field
  is not empty and \<open>float\<close> parses it: nothing else is checked. \<open>float\<close> parses
  \<open>nan\<close>, \<open>inf\<close>, \<open>-infinity\<close> and \<open>1e5\<close>, a submission of such values is turned into
  a frame that holds a NaN and infinities, and the model is called with that frame: a
  model that returns the first row it is given answers NaN.
\<close>

theorem prepare_input_succeeds_iff:
  "((\<exists>df. prepare_input pyfloat g form = Inr df) \<longleftrightarrow>
      (\<forall>feat\<in>set (g_FEATURES g).
         strip (form_get form feat []) \<noteq> [] \<and> pyfloat (strip (form_get form feat [])) \<noteq> None)) \<and>
   py_float ''nan'' = Some NaN \<and> py_float ''inf'' = Some PosInf \<and>
   py_float ''-infinity'' = Some NegInf \<and> py_float ''1e5'' = Some (Finite 100000) \<and>
   prepare_input py_float g_echo nonfinite_form
     = Inr \<lparr>columns = FEATURES, rows = [[NaN, PosInf, NegInf, Finite 100000, PosInf, NaN]]\<rparr> \<and>
   fst (predict py_float g_echo nonfinite_form)
     = Inr \<lparr>body = JObj [(''success'', JBool True),
                          (''prediction'', JNum NaN),
                          (''input'', JObj (zip FEATURES
                             (map JNum [NaN, PosInf, NegInf, Finite 100000, PosInf, NaN])))],
            status = 200\<rparr>"
proof -
  have iff: "(\<exists>df. prepare_input pyfloat g form = Inr df) \<longleftrightarrow>
      (\<forall>feat\<in>set (g_FEATURES g).
         strip (form_get form feat []) \<noteq> [] \<and> pyfloat (strip (form_get form feat [])) \<noteq> None)"
    by (simp add: prepare_input_Inr_iff list_all_iff field_ok_def raw_of_def)
  have frame: "prepare_input py_float g_echo nonfinite_form
     = Inr \<lparr>columns = FEATURES, rows = [[NaN, PosInf, NegInf, Finite 100000, PosInf, NaN]]\<rparr>"
    using nonfinite_frame by (simp add: nonfinite_values_def)
  have "fst (predict py_float g_echo nonfinite_form)
     = Inr \<lparr>body = JObj [(''success'', JBool True),
                          (''prediction'', JNum NaN),
                          (''input'', JObj (zip FEATURES
                             (map JNum [NaN, PosInf, NegInf, Finite 100000, PosInf, NaN])))],
            status = 200\<rparr>"
  proof -
    have gm: "g_model g_echo = Some echo_model"
      by (simp add: g_echo_def)
    have inv: "invoke echo_model
        \<lparr>columns = FEATURES, rows = [[NaN, PosInf, NegInf, Finite 100000, PosInf, NaN]]\<rparr>
      = (Inr NaN,
         \<lparr>columns = FEATURES, rows = [[NaN, PosInf, NegInf, Finite 100000, PosInf, NaN]]\<rparr>)"
      by (simp add: invoke_def echo_model_def item0_def pure_call_def)
    show ?thesis
      by (simp add: predict_def gm frame inv)
         (simp add: item0_def to_dict_records_def dict_def jsonify_def FEATURES_def)
  qed
  with iff frame nonfinite_parse show ?thesis
    by simp
qed

theorem prepare_input_succeeds_iff_witness:
  "list_all (\<lambda>feat. strip (form_get canonical_form feat []) \<noteq> [] \<and>
                    py_float (strip (form_get canonical_form feat [])) \<noteq> None)
     (g_FEATURES g_stub) \<and>
   (\<exists>df. prepare_input py_float g_stub canonical_form = Inr df)"
proof -
  have "\<forall>feat\<in>set (g_FEATURES g_stub).
      strip (form_get canonical_form feat []) \<noteq> [] \<and>
      py_float (strip (form_get canonical_form feat [])) \<noteq> None"
    by (simp add: g_stub_def FEATURES_def canonical_form_def form_get_def py_float_defs)
  with prepare_input_succeeds_iff[of py_float g_stub canonical_form] show ?thesis
    by (simp add: list_all_iff)
qed

section \<open>Properties of predict\<close>

lemma predict_no_model:
  "g_model g = None \<Longrightarrow>
     predict pyfloat g form =
       (Inr \<lparr>body = failure_body (''Model not loaded: '' @ or_str (g_model_load_error g) ''unknown''),
             status = 500\<rparr>, g)"
  by (simp add: predict_def jsonify_def failure_body_def)






lemma predict_globals: "snd (predict pyfloat g form) = g"
  by (simp add: predict_def split: option.splits sum.splits prod.splits thrown.splits)

lemma serve_globals: "snd (serve pyfloat g forms) = g"
proof (induction forms arbitrary: g)
  case Nil
  then show ?case by simp
next
  case (Cons form forms)
  have "snd (predict pyfloat g form) = g"
    by (rule predict_globals)
  with Cons.IH show ?case
    by (simp add: split_beta Let_def)
qed

lemma stub_frame:
  "prepare_input py_float g_stub canonical_form
     = Inr \<lparr>columns = FEATURES, rows = [canonical_values]\<rparr>"
  by (simp add: prepare_input_def DataFrame_def g_stub_def FEATURES_def canonical_form_def
        canonical_values_def form_get_def py_float_defs)



lemma g_unloaded_eq:
  "g_unloaded =
     \<lparr>g_FEATURES = FEATURES, g_model = None,
      g_model_load_error = Some (load_failure_message
        (''No module named '' @ [CHR 0x27] @ ''joblib'' @ [CHR 0x27])
        (''[Errno 2] No such file or directory: '' @ [CHR 0x27] @ ''models/coffee.pkl'' @ [CHR 0x27])
        (''No module named '' @ [CHR 0x27] @ ''dill'' @ [CHR 0x27]))\<rparr>"
  by (simp add: g_unloaded_def startup_def load_model_def failing_loaders_def no_module_def
        no_file_def MODEL_PATH_def load_failure_message_def)




lemma sublist_or_str: "x = Some err \<Longrightarrow> sublist err (pre @ or_str x d)"
  by (cases "err = []") (simp_all add: or_str_def)

text \<open>
  Claim C4. When the model is absent, \<open>predict\<close> answers status 500 with the message
  \<open>Model not loaded: \<close> followed by the stored load error (by \<open>unknown\<close> when none is
  stored), which the message therefore contains; the answer is the same for every form
  and every behaviour of \<open>float\<close>, no value is parsed and no model is called.
\<close>

theorem predict_model_absent:
  assumes "g_model g = None"
  shows "predict pyfloat g form =
           (Inr \<lparr>body = JObj [(''success'', JBool False),
                               (''error'', JStr (''Model not loaded: ''
                                                  @ or_str (g_model_load_error g) ''unknown''))],
                  status = 500\<rparr>, g) \<and>
         (\<forall>err. g_model_load_error g = Some err \<longrightarrow>
            sublist err (''Model not loaded: '' @ or_str (g_model_load_error g) ''unknown'') \<and>
            (err \<noteq> [] \<longrightarrow> or_str (g_model_load_error g) ''unknown'' = err)) \<and>
         predict pyfloat g form = predict pyfloat' g form'"
proof -
  have "sublist err (''Model not loaded: '' @ or_str (g_model_load_error g) ''unknown'')"
    if "g_model_load_error g = Some err" for err
    using that by (rule sublist_or_str)
  moreover have "or_str (g_model_load_error g) ''unknown'' = err"
    if "g_model_load_error g = Some err" "err \<noteq> []" for err
    using that by (simp add: or_str_def)
  ultimately show ?thesis
    using predict_no_model[OF assms, of pyfloat form] predict_no_model[OF assms, of pyfloat' form']
    by (simp add: failure_body_def)
qed

theorem predict_model_absent_witness:
  "g_model g_unloaded = None \<and>
   g_model_load_error g_unloaded = Some (load_failure_message
        (''No module named '' @ [CHR 0x27] @ ''joblib'' @ [CHR 0x27])
        (''[Errno 2] No such file or directory: '' @ [CHR 0x27] @ ''models/coffee.pkl'' @ [CHR 0x27])
        (''No module named '' @ [CHR 0x27] @ ''dill'' @ [CHR 0x27])) \<and>
   fst (predict py_float g_unloaded canonical_form) =
     Inr \<lparr>body = JObj [(''success'', JBool False),
                        (''error'', JStr (''Model not loaded: '' @ load_failure_message
        (''No module named '' @ [CHR 0x27] @ ''joblib'' @ [CHR 0x27])
        (''[Errno 2] No such file or directory: '' @ [CHR 0x27] @ ''models/coffee.pkl'' @ [CHR 0x27])
        (''No module named '' @ [CHR 0x27] @ ''dill'' @ [CHR 0x27])))],
           status = 500\<rparr>"
proof -
  have a: "g_model g_unloaded = None"
    by (simp add: g_unloaded_eq)
  have b: "g_model_load_error g_unloaded = Some (load_failure_message
        (''No module named '' @ [CHR 0x27] @ ''joblib'' @ [CHR 0x27])
        (''[Errno 2] No such file or directory: '' @ [CHR 0x27] @ ''models/coffee.pkl'' @ [CHR 0x27])
        (''No module named '' @ [CHR 0x27] @ ''dill'' @ [CHR 0x27]))"
    by (simp add: g_unloaded_eq)
  have c: "load_failure_message
        (''No module named '' @ [CHR 0x27] @ ''joblib'' @ [CHR 0x27])
        (''[Errno 2] No such file or directory: '' @ [CHR 0x27] @ ''models/coffee.pkl'' @ [CHR 0x27])
        (''No module named '' @ [CHR 0x27] @ ''dill'' @ [CHR 0x27]) \<noteq> []"
    by (simp add: load_failure_message_def)
  from predict_model_absent[OF a, of py_float canonical_form] a b c show ?thesis
    by (simp add: or_str_def)
qed

text \<open>
  Claim C7. The six canonical values submitted to \<open>predict\<close>, with a stub model whose
  \<open>predict\<close> returns \<open>[42.0]\<close>, give the success response with prediction 42.0 and an
  \<open>input\<close> object of the six fields with the floats 100.0, 5.5, 10.0, 3.0, 20.0 and 200.0.
\<close>

theorem predict_round_trip:
  "predict py_float g_stub canonical_form =
     (Inr \<lparr>body = JObj [(''success'', JBool True),
                         (''prediction'', JNum (Finite 42)),
                         (''input'', JObj [(''Number_of_Customers_Per_Day'', JNum (Finite 100)),
                                           (''Average_Order_Value'', JNum (Finite (11 / 2))),
                                           (''Operating_Hours_Per_Day'', JNum (Finite 10)),
                                           (''Number_of_Employees'', JNum (Finite 3)),
                                           (''Marketing_Spend_Per_Day'', JNum (Finite 20)),
                                           (''Location_Foot_Traffic'', JNum (Finite 200))])],
            status = 200\<rparr>, g_stub)"
proof -
  have m: "g_model g_stub = Some stub_model"
    by (simp add: g_stub_def)
  have inv: "invoke stub_model \<lparr>columns = FEATURES, rows = [canonical_values]\<rparr>
      = (Inr (Finite 42), \<lparr>columns = FEATURES, rows = [canonical_values]\<rparr>)"
    by (simp add: invoke_def stub_model_def item0_def pure_call_def)
  have d: "item0 (to_dict_records \<lparr>columns = FEATURES, rows = [canonical_values]\<rparr>)
      = Inr (zip FEATURES canonical_values)"
    by (simp add: item0_def to_dict_records_def dict_def FEATURES_def canonical_values_def)
  show ?thesis
    by (simp add: predict_def m stub_frame inv d jsonify_def)
       (simp add: FEATURES_def canonical_values_def)
qed

text \<open>
  Claim C8. Handling a request leaves the three module globals as they were, so after
  any sequence of requests they are what the startup made them: the schema is the list
  \<open>FEATURES\<close>, and the load error is set only when the model is absent and is \<open>None\<close>
  when \<open>load_model\<close> returned a model.
\<close>

theorem globals_fixed_after_startup:
  "snd (predict pyfloat g form) = g \<and>
   snd (serve pyfloat (startup ld) forms) = startup ld \<and>
   g_FEATURES (startup ld) = FEATURES \<and>
   (g_model_load_error (startup ld) \<noteq> None \<longrightarrow> g_model (startup ld) = None) \<and>
   (\<forall>m. load_model ld MODEL_PATH = Inr m \<longrightarrow>
      g_model (startup ld) = m \<and> g_model_load_error (startup ld) = None) \<and>
   (\<forall>e. load_model ld MODEL_PATH = Inl e \<longrightarrow>
      g_model (startup ld) = None \<and> g_model_load_error (startup ld) = Some (str_exn e))"
proof -
  have "g_FEATURES (startup ld) = FEATURES"
    by (simp add: startup_def split: sum.splits)
  moreover have "g_model_load_error (startup ld) \<noteq> None \<longrightarrow> g_model (startup ld) = None"
    by (simp add: startup_def split: sum.splits)
  moreover have "\<forall>m. load_model ld MODEL_PATH = Inr m \<longrightarrow>
      g_model (startup ld) = m \<and> g_model_load_error (startup ld) = None"
    by (simp add: startup_def)
  moreover have "\<forall>e. load_model ld MODEL_PATH = Inl e \<longrightarrow>
      g_model (startup ld) = None \<and> g_model_load_error (startup ld) = Some (str_exn e)"
    by (simp add: startup_def)
  ultimately show ?thesis
    by (simp add: predict_globals serve_globals)
qed

theorem globals_fixed_after_startup_witness:
  "load_model dill_only_loaders MODEL_PATH = Inr (Some stub_model) \<and>
   g_model (startup dill_only_loaders) = Some stub_model \<and>
   g_model_load_error (startup dill_only_loaders) = None \<and>
   snd (serve py_float (startup dill_only_loaders) [canonical_form, [], noisy_form])
     = startup dill_only_loaders \<and>
   g_model_load_error (startup failing_loaders) \<noteq> None \<and>
   g_model (startup failing_loaders) = None"
proof -
  have a: "load_model dill_only_loaders MODEL_PATH = Inr (Some stub_model)"
    by (simp add: load_model_def dill_only_loaders_def)
  have b: "g_model_load_error (startup failing_loaders) \<noteq> None"
    using g_unloaded_eq by (simp add: g_unloaded_def)
  from globals_fixed_after_startup[of py_float "startup dill_only_loaders" canonical_form
      dill_only_loaders "[canonical_form, [], noisy_form]"]
    globals_fixed_after_startup[of py_float "startup failing_loaders" canonical_form
      failing_loaders "[]"] a b
  show ?thesis
    by simp
qed

lemma prepare_loop_agree:
  "list_all (\<lambda>feat. map_of form1 feat = map_of form2 feat) feats \<Longrightarrow>
     prepare_loop pyfloat form1 feats acc = prepare_loop pyfloat form2 feats acc"
  by (induction feats arbitrary: acc) (simp_all add: form_get_def Let_def split: option.splits)

text \<open>
  Claim C10. For fixed globals (hence a fixed model, which is a function of the frame
  it is given), two forms that give every schema field the same first value get the
  same validation result and the same response: keys that are no schema field, the
  order of the pairs and later values of a key have no influence.
\<close>

theorem predict_noninterference:
  assumes "g_FEATURES g = FEATURES"
    and "\<forall>feat\<in>set FEATURES. map_of form1 feat = map_of form2 feat"
  shows "prepare_input pyfloat g form1 = prepare_input pyfloat g form2 \<and>
         predict pyfloat g form1 = predict pyfloat g form2"
proof -
  from assms have "list_all (\<lambda>feat. map_of form1 feat = map_of form2 feat) (g_FEATURES g)"
    by (simp add: list_all_iff)
  then have "prepare_loop pyfloat form1 (g_FEATURES g) [] = prepare_loop pyfloat form2 (g_FEATURES g) []"
    by (rule prepare_loop_agree)
  then have "prepare_input pyfloat g form1 = prepare_input pyfloat g form2"
    by (simp add: prepare_input_def)
  then show ?thesis
    by (simp add: predict_def split: option.splits)
qed

theorem predict_noninterference_witness:
  "g_FEATURES g_stub = FEATURES \<and>
   list_all (\<lambda>feat. map_of canonical_form feat = map_of noisy_form feat) FEATURES \<and>
   canonical_form \<noteq> noisy_form \<and>
   predict py_float g_stub canonical_form = predict py_float g_stub noisy_form"
proof -
  have a: "g_FEATURES g_stub = FEATURES"
    by (simp add: g_stub_def)
  have b: "list_all (\<lambda>feat. map_of canonical_form feat = map_of noisy_form feat) FEATURES"
    by (simp add: FEATURES_def canonical_form_def noisy_form_def)
  then have c: "\<forall>feat\<in>set FEATURES. map_of canonical_form feat = map_of noisy_form feat"
    by (simp add: list_all_iff)
  have d: "canonical_form \<noteq> noisy_form"
    by (simp add: canonical_form_def noisy_form_def)
  from predict_noninterference[OF a c, of py_float] a b d show ?thesis
    by simp
qed

section \<open>Properties of load_model\<close>

lemma sublist_in_right: "sublist xs zs \<Longrightarrow> sublist xs (ys @ zs)"
  by (auto simp: sublist_def) (metis append.assoc)

lemma sublist_in_left: "sublist xs ys \<Longrightarrow> sublist xs (ys @ zs)"
  by (auto simp: sublist_def) (metis append.assoc)

lemma sublist_self: "sublist xs xs"
  using sublist_appendI[of xs "[]" "[]"] by simp

lemma sublist_chain: "sublist xs ys \<Longrightarrow> sublist ys zs \<Longrightarrow> sublist xs zs"
  by (auto simp: sublist_def) (metis append.assoc)

lemma repr_char_plain:
  "isprintable c \<Longrightarrow> c \<noteq> CHR 0x5C \<Longrightarrow> c \<noteq> q \<Longrightarrow> repr_char q c = [c]"
  by (auto simp: repr_char_def isprintable_def)

lemma concat_repr_plain:
  "list_all (\<lambda>c. isprintable c \<and> c \<noteq> CHR 0x5C \<and> c \<noteq> q) s \<Longrightarrow> concat (map (repr_char q) s) = s"
  by (induction s) (simp_all add: repr_char_plain)

lemma repr_str_plain:
  assumes "repr_plain s"
  shows "\<exists>q. repr_str s = [q] @ s @ [q]"
proof -
  let ?q = "if CHR 0x27 \<in> set s \<and> CHR 0x22 \<notin> set s then CHR 0x22 else CHR 0x27"
  from assms have "list_all (\<lambda>c. isprintable c \<and> c \<noteq> CHR 0x5C \<and> c \<noteq> ?q) s"
    by (auto simp: repr_plain_def list_all_iff)
  then have "concat (map (repr_char ?q) s) = s"
    by (rule concat_repr_plain)
  then have "repr_str s = [?q] @ s @ [?q]"
    by (simp add: repr_str_def Let_def)
  then show ?thesis
    by blast
qed

lemma sublist_repr_str_plain:
  assumes "repr_plain s"
  shows "sublist s (repr_str s)"
proof -
  from repr_str_plain[OF assms] obtain q where "repr_str s = [q] @ s @ [q]"
    by blast
  then show ?thesis
    by (simp only: sublist_appendI)
qed

lemma sublist_join: "x \<in> set xs \<Longrightarrow> sublist x (join sep xs)"
proof (induction sep xs rule: join.induct)
  case (1 sep)
  then show ?case by simp
next
  case (2 sep y)
  then show ?case by (simp add: sublist_self)
next
  case (3 sep y z zs)
  show ?case
  proof (cases "x = y")
    case True
    then show ?thesis by simp
  next
    case False
    with 3 have "sublist x (join sep (z # zs))"
      by simp
    then have "sublist x (sep @ join sep (z # zs))"
      by (rule sublist_in_right)
    then have "sublist x (y @ sep @ join sep (z # zs))"
      by (rule sublist_in_right)
    then show ?thesis by simp
  qed
qed

lemma sublist_repr_pair:
  "sublist (repr_str (fst p)) (repr_pair p)" "sublist (repr_str (snd p)) (repr_pair p)"
proof -
  have "repr_pair p = ''('' @ repr_str (fst p) @ ('', '' @ repr_str (snd p) @ '')'')"
    by (simp add: repr_pair_def)
  then show "sublist (repr_str (fst p)) (repr_pair p)"
    by (simp only: sublist_appendI)
  have "repr_pair p = (''('' @ repr_str (fst p) @ '', '') @ repr_str (snd p) @ '')''"
    by (simp add: repr_pair_def)
  then show "sublist (repr_str (snd p)) (repr_pair p)"
    by (simp only: sublist_appendI)
qed

lemma sublist_repr_errs:
  assumes "(n, r) \<in> set errs"
  shows "sublist (repr_str n) (pre @ repr_errs errs) \<and> sublist (repr_str r) (pre @ repr_errs errs)"
proof -
  from assms have "sublist (repr_pair (n, r)) (join '', '' (map repr_pair errs))"
    by (simp add: sublist_join)
  then have "sublist (repr_pair (n, r)) (join '', '' (map repr_pair errs) @ '']'')"
    by (rule sublist_in_left)
  then have "sublist (repr_pair (n, r)) (''['' @ join '', '' (map repr_pair errs) @ '']'')"
    by (rule sublist_in_right)
  then have "sublist (repr_pair (n, r)) (pre @ repr_errs errs)"
    unfolding repr_errs_def by (rule sublist_in_right)
  moreover have "sublist (repr_str n) (repr_pair (n, r))" "sublist (repr_str r) (repr_pair (n, r))"
    using sublist_repr_pair[of "(n, r)"] by simp_all
  ultimately show ?thesis
    by (intro conjI) (erule (1) sublist_chain)+
qed

lemma names_plain:
  "repr_plain ''joblib''" "repr_plain ''pickle_latin1''" "repr_plain ''dill''"
  by (simp_all add: repr_plain_def isprintable_def)

lemma message_mentions_reprs:
  "sublist (repr_str ''joblib'') (load_failure_message r1 r2 r3) \<and>
   sublist (repr_str r1) (load_failure_message r1 r2 r3)"
  "sublist (repr_str ''pickle_latin1'') (load_failure_message r1 r2 r3) \<and>
   sublist (repr_str r2) (load_failure_message r1 r2 r3)"
  "sublist (repr_str ''dill'') (load_failure_message r1 r2 r3) \<and>
   sublist (repr_str r3) (load_failure_message r1 r2 r3)"
proof -
  let ?errs = "[(''joblib'', r1), (''pickle_latin1'', r2), (''dill'', r3)]"
  have m1: "(''joblib'', r1) \<in> set ?errs" and m2: "(''pickle_latin1'', r2) \<in> set ?errs"
    and m3: "(''dill'', r3) \<in> set ?errs"
    by simp_all
  show "sublist (repr_str ''joblib'') (load_failure_message r1 r2 r3) \<and>
   sublist (repr_str r1) (load_failure_message r1 r2 r3)"
    unfolding load_failure_message_def by (rule sublist_repr_errs[OF m1])
  show "sublist (repr_str ''pickle_latin1'') (load_failure_message r1 r2 r3) \<and>
   sublist (repr_str r2) (load_failure_message r1 r2 r3)"
    unfolding load_failure_message_def by (rule sublist_repr_errs[OF m2])
  show "sublist (repr_str ''dill'') (load_failure_message r1 r2 r3) \<and>
   sublist (repr_str r3) (load_failure_message r1 r2 r3)"
    unfolding load_failure_message_def by (rule sublist_repr_errs[OF m3])
qed

lemma message_mentions:
  "sublist ''joblib'' (load_failure_message r1 r2 r3)"
  "sublist ''pickle_latin1'' (load_failure_message r1 r2 r3)"
  "sublist ''dill'' (load_failure_message r1 r2 r3)"
  "sublist (repr_str r1) (load_failure_message r1 r2 r3)"
  "sublist (repr_str r2) (load_failure_message r1 r2 r3)"
  "sublist (repr_str r3) (load_failure_message r1 r2 r3)"
proof -
  show "sublist ''joblib'' (load_failure_message r1 r2 r3)"
    by (rule sublist_chain[OF sublist_repr_str_plain[OF names_plain(1)]
          conjunct1[OF message_mentions_reprs(1)]])
  show "sublist ''pickle_latin1'' (load_failure_message r1 r2 r3)"
    by (rule sublist_chain[OF sublist_repr_str_plain[OF names_plain(2)]
          conjunct1[OF message_mentions_reprs(2)]])
  show "sublist ''dill'' (load_failure_message r1 r2 r3)"
    by (rule sublist_chain[OF sublist_repr_str_plain[OF names_plain(3)]
          conjunct1[OF message_mentions_reprs(3)]])
  show "sublist (repr_str r1) (load_failure_message r1 r2 r3)"
    by (rule conjunct2[OF message_mentions_reprs(1)])
  show "sublist (repr_str r2) (load_failure_message r1 r2 r3)"
    by (rule conjunct2[OF message_mentions_reprs(2)])
  show "sublist (repr_str r3) (load_failure_message r1 r2 r3)"
    by (rule conjunct2[OF message_mentions_reprs(3)])
qed

lemma message_mentions_plain:
  "repr_plain r1 \<Longrightarrow> sublist r1 (load_failure_message r1 r2 r3)"
  "repr_plain r2 \<Longrightarrow> sublist r2 (load_failure_message r1 r2 r3)"
  "repr_plain r3 \<Longrightarrow> sublist r3 (load_failure_message r1 r2 r3)"
proof -
  show "repr_plain r1 \<Longrightarrow> sublist r1 (load_failure_message r1 r2 r3)"
    by (rule sublist_chain[OF sublist_repr_str_plain message_mentions(4)])
  show "repr_plain r2 \<Longrightarrow> sublist r2 (load_failure_message r1 r2 r3)"
    by (rule sublist_chain[OF sublist_repr_str_plain message_mentions(5)])
  show "repr_plain r3 \<Longrightarrow> sublist r3 (load_failure_message r1 r2 r3)"
    by (rule sublist_chain[OF sublist_repr_str_plain message_mentions(6)])
qed

lemma load_model_all_fail:
  "joblib_load ld path = Inl e1 \<Longrightarrow> pickle_load_latin1 ld path = Inl e2 \<Longrightarrow>
   dill_load ld path = Inl e3 \<Longrightarrow>
     load_model ld path
       = Inl (RuntimeError (load_failure_message (str_exn e1) (str_exn e2) (str_exn e3)))"
  by (simp add: load_model_def load_failure_message_def)

text \<open>
  Claim C3. \<open>load_model\<close> returns what joblib loads; when joblib raises, what pickle
  (latin1) loads; when that raises too, what dill loads, so that no exception of one
  deserializer leaves \<open>load_model\<close> while a later one succeeds. When all three raise, it
  raises one \<open>RuntimeError\<close> whose message names the three strategies and holds the
  \<open>repr\<close> of each failure reason (the reason itself when \<open>repr\<close> only puts it between
  quotes); at startup the model is then \<open>None\<close> and that message is the load error.
\<close>

theorem load_model_fallback:
  "(joblib_load ld path = Inr m \<longrightarrow> load_model ld path = Inr m) \<and>
   (joblib_load ld path = Inl e1 \<and> pickle_load_latin1 ld path = Inr m \<longrightarrow>
      load_model ld path = Inr m) \<and>
   (joblib_load ld path = Inl e1 \<and> pickle_load_latin1 ld path = Inl e2 \<and>
    dill_load ld path = Inr m \<longrightarrow> load_model ld path = Inr m) \<and>
   (joblib_load ld path = Inl e1 \<and> pickle_load_latin1 ld path = Inl e2 \<and>
    dill_load ld path = Inl e3 \<longrightarrow>
      (\<exists>msg. load_model ld path = Inl (RuntimeError msg) \<and>
         msg = ''Model could not be loaded. Tried joblib, pickle(latin1), dill. Errors: ''
                 @ repr_errs [(''joblib'', str_exn e1), (''pickle_latin1'', str_exn e2),
                              (''dill'', str_exn e3)] \<and>
         list_all (\<lambda>name. sublist name msg) [''joblib'', ''pickle_latin1'', ''dill''] \<and>
         list_all (\<lambda>e. sublist (repr_str (str_exn e)) msg \<and>
                        (repr_plain (str_exn e) \<longrightarrow> sublist (str_exn e) msg)) [e1, e2, e3] \<and>
         (path = MODEL_PATH \<longrightarrow>
            startup ld = \<lparr>g_FEATURES = FEATURES, g_model = None,
                          g_model_load_error = Some msg\<rparr>))) \<and>
   (load_model ld MODEL_PATH = Inr m \<longrightarrow>
      startup ld = \<lparr>g_FEATURES = FEATURES, g_model = m, g_model_load_error = None\<rparr>)"
proof -
  have first: "joblib_load ld path = Inr m \<longrightarrow> load_model ld path = Inr m"
    by (simp add: load_model_def)
  have second: "joblib_load ld path = Inl e1 \<and> pickle_load_latin1 ld path = Inr m \<longrightarrow>
      load_model ld path = Inr m"
    by (simp add: load_model_def)
  have third: "joblib_load ld path = Inl e1 \<and> pickle_load_latin1 ld path = Inl e2 \<and>
      dill_load ld path = Inr m \<longrightarrow> load_model ld path = Inr m"
    by (simp add: load_model_def)
  have none: "joblib_load ld path = Inl e1 \<and> pickle_load_latin1 ld path = Inl e2 \<and>
      dill_load ld path = Inl e3 \<longrightarrow>
      (\<exists>msg. load_model ld path = Inl (RuntimeError msg) \<and>
         msg = ''Model could not be loaded. Tried joblib, pickle(latin1), dill. Errors: ''
                 @ repr_errs [(''joblib'', str_exn e1), (''pickle_latin1'', str_exn e2),
                              (''dill'', str_exn e3)] \<and>
         list_all (\<lambda>name. sublist name msg) [''joblib'', ''pickle_latin1'', ''dill''] \<and>
         list_all (\<lambda>e. sublist (repr_str (str_exn e)) msg \<and>
                        (repr_plain (str_exn e) \<longrightarrow> sublist (str_exn e) msg)) [e1, e2, e3] \<and>
         (path = MODEL_PATH \<longrightarrow>
            startup ld = \<lparr>g_FEATURES = FEATURES, g_model = None,
                          g_model_load_error = Some msg\<rparr>))"
  proof (intro impI, elim conjE)
    assume fail: "joblib_load ld path = Inl e1" "pickle_load_latin1 ld path = Inl e2"
      "dill_load ld path = Inl e3"
    let ?msg = "load_failure_message (str_exn e1) (str_exn e2) (str_exn e3)"
    have raised: "load_model ld path = Inl (RuntimeError ?msg)"
      using fail by (rule load_model_all_fail)
    have text_eq: "?msg = ''Model could not be loaded. Tried joblib, pickle(latin1), dill. Errors: ''
                 @ repr_errs [(''joblib'', str_exn e1), (''pickle_latin1'', str_exn e2),
                              (''dill'', str_exn e3)]"
      by (simp add: load_failure_message_def)
    have names: "list_all (\<lambda>name. sublist name ?msg) [''joblib'', ''pickle_latin1'', ''dill'']"
      by (simp add: message_mentions(1-3))
    have reasons: "list_all (\<lambda>e. sublist (repr_str (str_exn e)) ?msg \<and>
                        (repr_plain (str_exn e) \<longrightarrow> sublist (str_exn e) ?msg)) [e1, e2, e3]"
      by (simp add: message_mentions(4-6) message_mentions_plain)
    have start: "path = MODEL_PATH \<longrightarrow>
            startup ld = \<lparr>g_FEATURES = FEATURES, g_model = None,
                          g_model_load_error = Some ?msg\<rparr>"
      using raised by (auto simp: startup_def)
    from raised text_eq names reasons start
    show "\<exists>msg. load_model ld path = Inl (RuntimeError msg) \<and>
         msg = ''Model could not be loaded. Tried joblib, pickle(latin1), dill. Errors: ''
                 @ repr_errs [(''joblib'', str_exn e1), (''pickle_latin1'', str_exn e2),
                              (''dill'', str_exn e3)] \<and>
         list_all (\<lambda>name. sublist name msg) [''joblib'', ''pickle_latin1'', ''dill''] \<and>
         list_all (\<lambda>e. sublist (repr_str (str_exn e)) msg \<and>
                        (repr_plain (str_exn e) \<longrightarrow> sublist (str_exn e) msg)) [e1, e2, e3] \<and>
         (path = MODEL_PATH \<longrightarrow>
            startup ld = \<lparr>g_FEATURES = FEATURES, g_model = None,
                          g_model_load_error = Some msg\<rparr>)"
      by (intro exI[of _ ?msg] conjI)
  qed
  have loaded: "load_model ld MODEL_PATH = Inr m \<longrightarrow>
      startup ld = \<lparr>g_FEATURES = FEATURES, g_model = m, g_model_load_error = None\<rparr>"
    by (simp add: startup_def)
  show ?thesis
    by (rule conjI[OF first conjI[OF second conjI[OF third conjI[OF none loaded]]]])
qed


lemma failing_message:
  "load_failure_message (str_exn (no_module ''joblib'')) (str_exn (no_file MODEL_PATH))
       (str_exn (no_module ''dill''))
     = ''Model could not be loaded. Tried joblib, pickle(latin1), dill. Errors: [(''
         @ sq @ ''joblib'' @ sq @ '', '' @ dq @ ''No module named '' @ sq @ ''joblib'' @ sq @ dq
         @ ''), ('' @ sq @ ''pickle_latin1'' @ sq @ '', ''
         @ dq @ ''[Errno 2] No such file or directory: '' @ sq @ ''models/coffee.pkl'' @ sq @ dq
         @ ''), ('' @ sq @ ''dill'' @ sq @ '', '' @ dq @ ''No module named '' @ sq @ ''dill'' @ sq @ dq
         @ '')]''"
  by (simp add: load_failure_message_def repr_errs_def repr_pair_def repr_str_def repr_char_def
        isprintable_def Let_def no_module_def no_file_def MODEL_PATH_def sq_def dq_def)

theorem load_model_fallback_witness:
  "(joblib_load dill_only_loaders MODEL_PATH = Inl (no_module ''joblib'') \<and>
    pickle_load_latin1 dill_only_loaders MODEL_PATH = Inl (OtherError ''invalid load key, x'') \<and>
    dill_load dill_only_loaders MODEL_PATH = Inr (Some stub_model) \<and>
    load_model dill_only_loaders MODEL_PATH = Inr (Some stub_model) \<and>
    startup dill_only_loaders = g_stub) \<and>
   (joblib_load failing_loaders MODEL_PATH = Inl (no_module ''joblib'') \<and>
    pickle_load_latin1 failing_loaders MODEL_PATH = Inl (no_file MODEL_PATH) \<and>
    dill_load failing_loaders MODEL_PATH = Inl (no_module ''dill'') \<and>
    load_model failing_loaders MODEL_PATH
      = Inl (RuntimeError
          (''Model could not be loaded. Tried joblib, pickle(latin1), dill. Errors: [(''
           @ sq @ ''joblib'' @ sq @ '', '' @ dq @ ''No module named '' @ sq @ ''joblib'' @ sq @ dq
           @ ''), ('' @ sq @ ''pickle_latin1'' @ sq @ '', ''
           @ dq @ ''[Errno 2] No such file or directory: '' @ sq @ ''models/coffee.pkl'' @ sq @ dq
           @ ''), ('' @ sq @ ''dill'' @ sq @ '', '' @ dq @ ''No module named '' @ sq @ ''dill'' @ sq @ dq
           @ '')]'')) \<and>
    g_model (startup failing_loaders) = None)"
proof -
  have a: "joblib_load dill_only_loaders MODEL_PATH = Inl (no_module ''joblib'')"
    "pickle_load_latin1 dill_only_loaders MODEL_PATH = Inl (OtherError ''invalid load key, x'')"
    "dill_load dill_only_loaders MODEL_PATH = Inr (Some stub_model)"
    by (simp_all add: dill_only_loaders_def)
  have b: "joblib_load failing_loaders MODEL_PATH = Inl (no_module ''joblib'')"
    "pickle_load_latin1 failing_loaders MODEL_PATH = Inl (no_file MODEL_PATH)"
    "dill_load failing_loaders MODEL_PATH = Inl (no_module ''dill'')"
    by (simp_all add: failing_loaders_def)
  from load_model_fallback[where ld = dill_only_loaders and path = MODEL_PATH
      and m = "Some stub_model" and ?e1.0 = "no_module ''joblib''"
      and ?e2.0 = "OtherError ''invalid load key, x''"] a
  have c: "load_model dill_only_loaders MODEL_PATH = Inr (Some stub_model)"
    "startup dill_only_loaders = g_stub"
    by (simp_all add: g_stub_def)
  from load_model_fallback[where ld = failing_loaders and path = MODEL_PATH
      and ?e1.0 = "no_module ''joblib''" and ?e2.0 = "no_file MODEL_PATH"
      and ?e3.0 = "no_module ''dill''"] b
  have d: "load_model failing_loaders MODEL_PATH
      = Inl (RuntimeError (load_failure_message (str_exn (no_module ''joblib''))
          (str_exn (no_file MODEL_PATH)) (str_exn (no_module ''dill''))))"
    "g_model (startup failing_loaders) = None"
    by (auto simp: load_failure_message_def)
  from a b c d show ?thesis
    by (simp only: failing_message simp_thms)
qed

end
